theory Spec2Isabelle
  imports Main
begin

section \<open>Values and exceptions\<close>

text \<open>
  The authentication gate of \<^verbatim>\<open>backend/app/core/security.py\<close> and the alert handler of
  \<^verbatim>\<open>backend/app/api/routes/alerts.py\<close>, embedded as total functions. Every
  \<^verbatim>\<open>raise\<close> of the source is a value \<open>Inl e\<close> of type \<open>exn + 'a\<close>.

  A parsed JSON document, as Python's \<^verbatim>\<open>json\<close> module produces it. An object is the
  list of the items of a \<^verbatim>\<open>dict\<close>, in insertion order, looked up with \<open>map_of\<close>.
  Numbers are integers; floating-point numbers are outside the model.
\<close>

datatype json =
    JNull
  | JBool bool
  | JInt int
  | JStr string
  | JArr "json list"
  | JObj "(string \<times> json) list"

type_synonym pydict = "(string \<times> json) list"

text \<open>
  \<^verbatim>\<open>fastapi.HTTPException(status_code=..., detail=..., headers=...)\<close>.
\<close>

record http_exception =
  status_code :: nat
  detail :: string
  headers :: "(string \<times> string) list"

text \<open>
  The exceptions that reach the handlers of the gate. \<open>JOSEError\<close> stands for
  \<^verbatim>\<open>jose.exceptions.JOSEError\<close> and those of its subclasses that no handler names;
  \<open>JWTError\<close>, \<open>ExpiredSignatureError\<close> and \<open>JWTClaimsError\<close> are subclasses of it.
  \<open>HTTPException\<close>, \<open>KeyError\<close>, \<open>TypeError\<close> and \<open>OtherException\<close> are subclasses of
  \<^verbatim>\<open>Exception\<close> outside that hierarchy. The string is \<^verbatim>\<open>str(e)\<close>.
\<close>

datatype exn =
    HTTPException http_exception
  | JOSEError string
  | JWTError string
  | ExpiredSignatureError string
  | JWTClaimsError string
  | KeyError string
  | TypeError string
  | OtherException string

text \<open>\<^verbatim>\<open>isinstance(e, JOSEError)\<close>\<close>

fun is_JOSEError :: "exn \<Rightarrow> bool" where
  "is_JOSEError (JOSEError m) = True"
| "is_JOSEError (JWTError m) = True"
| "is_JOSEError (ExpiredSignatureError m) = True"
| "is_JOSEError (JWTClaimsError m) = True"
| "is_JOSEError e = False"

text \<open>\<^verbatim>\<open>str(e)\<close>\<close>

fun str_exn :: "exn \<Rightarrow> string" where
  "str_exn (HTTPException h) = detail h"
| "str_exn (JOSEError m) = m"
| "str_exn (JWTError m) = m"
| "str_exn (ExpiredSignatureError m) = m"
| "str_exn (JWTClaimsError m) = m"
| "str_exn (KeyError m) = m"
| "str_exn (TypeError m) = m"
| "str_exn (OtherException m) = m"

text \<open>
  Python's \<^verbatim>\<open>==\<close> on parsed JSON: structural, except that \<^verbatim>\<open>True == 1\<close> and
  \<^verbatim>\<open>False == 0\<close>; two dicts are equal when they have the same keys with equal values.
\<close>

fun py_eq :: "json \<Rightarrow> json \<Rightarrow> bool"
  and py_eq_list :: "json list \<Rightarrow> json list \<Rightarrow> bool"
  and py_eq_items :: "pydict \<Rightarrow> pydict \<Rightarrow> bool" where
  "py_eq JNull JNull = True"
| "py_eq (JBool a) (JBool b) = (a = b)"
| "py_eq (JBool a) (JInt j) = ((if a then 1 else 0) = j)"
| "py_eq (JInt i) (JBool b) = (i = (if b then 1 else 0))"
| "py_eq (JInt i) (JInt j) = (i = j)"
| "py_eq (JStr s) (JStr t) = (s = t)"
| "py_eq (JArr xs) (JArr ys) = py_eq_list xs ys"
| "py_eq (JObj a) (JObj b) = (set (map fst a) = set (map fst b) \<and> py_eq_items a b)"
| "py_eq x y = False"
| "py_eq_list [] [] = True"
| "py_eq_list (x # xs) (y # ys) = (py_eq x y \<and> py_eq_list xs ys)"
| "py_eq_list xs ys = False"
| "py_eq_items [] b = True"
| "py_eq_items ((k, v) # a) b =
     ((case map_of b k of None \<Rightarrow> False | Some w \<Rightarrow> py_eq v w) \<and> py_eq_items a b)"

text \<open>
  \<^verbatim>\<open>x[k]\<close> for a string \<open>k\<close>: a dict without the key raises \<^verbatim>\<open>KeyError\<close>, every other
  JSON value raises \<^verbatim>\<open>TypeError\<close>.
\<close>

definition dict_get :: "pydict \<Rightarrow> string \<Rightarrow> exn + json" where
  "dict_get d k = (case map_of d k of None \<Rightarrow> Inl (KeyError k) | Some v \<Rightarrow> Inr v)"

fun subscript :: "json \<Rightarrow> string \<Rightarrow> exn + json" where
  "subscript (JObj d) k = dict_get d k"
| "subscript (JArr xs) k = Inl (TypeError ''list indices must be integers or slices, not str'')"
| "subscript (JStr s) k = Inl (TypeError ''string indices must be integers'')"
| "subscript x k = Inl (TypeError ''object is not subscriptable'')"

text \<open>
  \<^verbatim>\<open>for key in x\<close>: a list yields its elements, a dict its keys, a string its
  characters; \<^verbatim>\<open>None\<close>, a bool and a number are not iterable.
\<close>

fun iterate :: "json \<Rightarrow> exn + json list" where
  "iterate (JArr xs) = Inr xs"
| "iterate (JObj d) = Inr (map (\<lambda>kv. JStr (fst kv)) d)"
| "iterate (JStr s) = Inr (map (\<lambda>c. JStr [c]) s)"
| "iterate x = Inl (TypeError ''object is not iterable'')"

section \<open>Configuration and the outside world\<close>

text \<open>
  \<^verbatim>\<open>settings\<close> of \<^verbatim>\<open>app/core/config.py\<close>, which is not among the sources: the four
  attributes the gate reads, taken as parameters.
\<close>

record config =
  AUTH0_DOMAIN :: string
  AUTH0_AUDIENCE :: string
  AUTH0_ALGORITHMS :: "string list"
  API_KEY_SECRET :: string

text \<open>
  The three library calls of \<^verbatim>\<open>verify_jwt\<close>, as what they return or raise in the
  request at hand:
  \<^item> \<open>requests_get url\<close> is \<^verbatim>\<open>requests.get(url)\<close>; a response is what its
    \<^verbatim>\<open>.json()\<close> returns or raises;
  \<^item> \<open>get_unverified_header token\<close> is \<^verbatim>\<open>jwt.get_unverified_header(token)\<close>;
  \<^item> \<open>jwt_decode token key algorithms audience issuer\<close> is \<^verbatim>\<open>jwt.decode(token, key,
    algorithms=..., audience=..., issuer=...)\<close>, which checks the signature, the expiry,
    the audience and the issuer and returns the claims.
\<close>

type_synonym response = "exn + json"

record world =
  requests_get :: "string \<Rightarrow> exn + response"
  get_unverified_header :: "string \<Rightarrow> exn + pydict"
  jwt_decode :: "string \<Rightarrow> pydict \<Rightarrow> string list \<Rightarrow> string \<Rightarrow> string \<Rightarrow> exn + pydict"

text \<open>\<^verbatim>\<open>HTTPAuthorizationCredentials\<close>, what \<^verbatim>\<open>HTTPBearer\<close> extracts.\<close>

record http_authorization_credentials =
  scheme :: string
  credentials :: string

section \<open>Token verification\<close>

text \<open>
  Every \<^verbatim>\<open>HTTPException\<close> of the module has status 401 and the header
  \<^verbatim>\<open>WWW-Authenticate: Bearer\<close>; only the detail differs.
\<close>

definition unauthorized :: "string \<Rightarrow> exn" where
  "unauthorized d =
     HTTPException \<lparr>status_code = 401, detail = d, headers = [(''WWW-Authenticate'', ''Bearer'')]\<rparr>"

text \<open>
  The dict built in the loop body once the key identifiers match: the five subscripts are
  evaluated in the order of the dict display, each raising \<^verbatim>\<open>KeyError\<close> when absent.
\<close>

definition build_rsa_key :: "json \<Rightarrow> exn + pydict" where
  "build_rsa_key key =
     (case subscript key ''kty'' of Inl e \<Rightarrow> Inl e | Inr kty \<Rightarrow>
     (case subscript key ''kid'' of Inl e \<Rightarrow> Inl e | Inr kid \<Rightarrow>
     (case subscript key ''use'' of Inl e \<Rightarrow> Inl e | Inr use \<Rightarrow>
     (case subscript key ''n'' of Inl e \<Rightarrow> Inl e | Inr n \<Rightarrow>
     (case subscript key ''e'' of Inl e \<Rightarrow> Inl e | Inr ex \<Rightarrow>
        Inr [(''kty'', kty), (''kid'', kid), (''use'', use), (''n'', n), (''e'', ex)])))))"

text \<open>
  The loop \<^verbatim>\<open>for key in jwks["keys"]\<close>: \<open>rsa_key\<close> starts as the empty dict, the first
  key whose \<^verbatim>\<open>kid\<close> equals the header's is taken and the loop left.
\<close>

fun find_rsa_key :: "json list \<Rightarrow> pydict \<Rightarrow> exn + pydict" where
  "find_rsa_key [] unverified_header = Inr []"
| "find_rsa_key (key # keys) unverified_header =
     (case subscript key ''kid'' of Inl e \<Rightarrow> Inl e | Inr kid \<Rightarrow>
     (case dict_get unverified_header ''kid'' of Inl e \<Rightarrow> Inl e | Inr hkid \<Rightarrow>
        if py_eq kid hkid then build_rsa_key key
        else find_rsa_key keys unverified_header))"

text \<open>
  The inner \<^verbatim>\<open>try\<close> around \<^verbatim>\<open>jwt.decode\<close>: each handler raises an
  \<^verbatim>\<open>HTTPException\<close> of its own.
\<close>

definition decode_with :: "world \<Rightarrow> config \<Rightarrow> string \<Rightarrow> pydict \<Rightarrow> exn + pydict" where
  "decode_with w cfg token rsa_key =
     (case jwt_decode w token rsa_key (AUTH0_ALGORITHMS cfg) (AUTH0_AUDIENCE cfg)
             (''https://'' @ AUTH0_DOMAIN cfg @ ''/'') of
        Inr payload \<Rightarrow> Inr payload
      | Inl (ExpiredSignatureError m) \<Rightarrow> Inl (unauthorized ''Token is expired'')
      | Inl (JWTClaimsError m) \<Rightarrow>
          Inl (unauthorized ''Incorrect claims, check audience and issuer.'')
      | Inl e \<Rightarrow> Inl (unauthorized ''Unable to parse authentication token''))"

text \<open>
  The body of the outer \<^verbatim>\<open>try\<close> of \<^verbatim>\<open>verify_jwt\<close>, lines 71 to 126: what it returns,
  or the exception that leaves it.
\<close>

definition verify_jwt_body :: "world \<Rightarrow> config \<Rightarrow> string \<Rightarrow> exn + pydict" where
  "verify_jwt_body w cfg token =
     (case requests_get w (''https://'' @ AUTH0_DOMAIN cfg @ ''/.well-known/jwks.json'') of
        Inl e \<Rightarrow> Inl e
      | Inr jwks_client \<Rightarrow>
     (case jwks_client of Inl e \<Rightarrow> Inl e | Inr jwks \<Rightarrow>
     (case get_unverified_header w token of Inl e \<Rightarrow> Inl e | Inr unverified_header \<Rightarrow>
     (case subscript jwks ''keys'' of Inl e \<Rightarrow> Inl e | Inr ks \<Rightarrow>
     (case iterate ks of Inl e \<Rightarrow> Inl e | Inr keys \<Rightarrow>
     (case find_rsa_key keys unverified_header of Inl e \<Rightarrow> Inl e | Inr rsa_key \<Rightarrow>
        if rsa_key \<noteq> [] then decode_with w cfg token rsa_key
        else Inl (unauthorized ''Unable to find appropriate key'')))))))"

text \<open>
  The two handlers of the outer \<^verbatim>\<open>try\<close>, lines 128 to 140. An \<^verbatim>\<open>HTTPException\<close>
  raised inside the body is an \<^verbatim>\<open>Exception\<close> and not a \<^verbatim>\<open>JOSEError\<close>, so the second
  handler takes it as it takes every other exception.
\<close>

definition verify_jwt :: "world \<Rightarrow> config \<Rightarrow> string \<Rightarrow> exn + pydict" where
  "verify_jwt w cfg token =
     (case verify_jwt_body w cfg token of
        Inr payload \<Rightarrow> Inr payload
      | Inl e \<Rightarrow>
          if is_JOSEError e
          then Inl (unauthorized (''Could not validate credentials: '' @ str_exn e))
          else Inl (unauthorized ''Authentication failed''))"

section \<open>The gate\<close>

text \<open>
  \<^verbatim>\<open>verify_api_key(api_key_header, token)\<close>. Both arguments are \<^verbatim>\<open>None\<close> when the
  request does not carry them. \<^verbatim>\<open>if token:\<close> holds for every credentials object;
  \<^verbatim>\<open>if api_key_header:\<close> holds for a string that is not empty.
\<close>

definition api_key_path :: "config \<Rightarrow> string option \<Rightarrow> exn + pydict" where
  "api_key_path cfg api_key_header =
     (case api_key_header of
        Some k \<Rightarrow>
          if k \<noteq> [] \<and> k = API_KEY_SECRET cfg
          then Inr [(''sub'', JStr ''internal_extension''), (''scope'', JStr ''admin'')]
          else Inl (unauthorized ''Missing or invalid authentication credentials'')
      | None \<Rightarrow> Inl (unauthorized ''Missing or invalid authentication credentials''))"

definition verify_api_key ::
  "world \<Rightarrow> config \<Rightarrow> string option \<Rightarrow> http_authorization_credentials option \<Rightarrow> exn + pydict" where
  "verify_api_key w cfg api_key_header token =
     (case token of
        Some tok \<Rightarrow>
          (case verify_jwt w cfg (credentials tok) of
             Inr payload \<Rightarrow> Inr payload
           | Inl (HTTPException h) \<Rightarrow> Inl (HTTPException h)
           | Inl e \<Rightarrow> api_key_path cfg api_key_header)
      | None \<Rightarrow> api_key_path cfg api_key_header)"

section \<open>The alert handler\<close>

text \<open>
  \<^verbatim>\<open>AlertCreate\<close> is declared in \<^verbatim>\<open>app/models/schemas.py\<close>, which is not among the
  sources: the record holds the three attributes the handler reads. The type of
  \<^verbatim>\<open>details\<close> and its rendering by \<^verbatim>\<open>str\<close> are parameters.
\<close>

record 'd alert_create =
  user_email :: "string option"
  violation_type :: string
  details :: 'd

text \<open>
  \<^verbatim>\<open>create_alert(alert, api_key)\<close>: the alert as the handler leaves it, the lines printed
  and the dict returned. \<^verbatim>\<open>not alert.user_email\<close> holds for \<^verbatim>\<open>None\<close> and for the
  empty string.
\<close>

definition create_alert ::
  "('d \<Rightarrow> string) \<Rightarrow> 'd alert_create \<Rightarrow> pydict \<Rightarrow>
     'd alert_create \<times> string list \<times> (string \<times> string) list" where
  "create_alert str_details alert api_key =
     (let email = (case user_email alert of
                     None \<Rightarrow> ''joshini.mn@gmail.com''
                   | Some a \<Rightarrow> if a = [] then ''joshini.mn@gmail.com'' else a);
          alert' = alert\<lparr>user_email := Some email\<rparr>
      in (alert',
          [''ALERTS: Received alert from '' @ email @ '': '' @ violation_type alert',
           ''DETAILS: '' @ str_details (details alert')],
          [(''status'', ''success''), (''message'', ''Alert logged'')]))"

text \<open>
  The route \<^verbatim>\<open>POST /alerts/\<close>: the dependency \<^verbatim>\<open>Depends(verify_api_key)\<close> runs first,
  and the handler runs only when it returns.
\<close>

definition post_alerts ::
  "world \<Rightarrow> config \<Rightarrow> ('d \<Rightarrow> string) \<Rightarrow> string option \<Rightarrow>
     http_authorization_credentials option \<Rightarrow> 'd alert_create \<Rightarrow>
     exn + 'd alert_create \<times> string list \<times> (string \<times> string) list" where
  "post_alerts w cfg str_details api_key_header token alert =
     (case verify_api_key w cfg api_key_header token of
        Inl e \<Rightarrow> Inl e
      | Inr api_key \<Rightarrow> Inr (create_alert str_details alert api_key))"

section \<open>Well-formed key sets\<close>

text \<open>
  The key-set endpoint is expected to answer with an object whose \<^verbatim>\<open>keys\<close> array holds
  entries that each contain \<^verbatim>\<open>kid\<close>, \<^verbatim>\<open>kty\<close>, \<^verbatim>\<open>use\<close>, \<^verbatim>\<open>n\<close> and \<^verbatim>\<open>e\<close>. These
  definitions state that expectation; the gate does not use them.
\<close>

fun well_formed_jwk :: "json \<Rightarrow> bool" where
  "well_formed_jwk (JObj d) =
     list_all (\<lambda>f. map_of d f \<noteq> None) [''kty'', ''kid'', ''use'', ''n'', ''e'']"
| "well_formed_jwk x = False"

fun jwk_field :: "json \<Rightarrow> string \<Rightarrow> json" where
  "jwk_field (JObj d) f = (case map_of d f of Some v \<Rightarrow> v | None \<Rightarrow> JNull)"
| "jwk_field x f = JNull"

text \<open>The key identifier of an entry equals the one of the token's header.\<close>

definition kid_matches :: "json \<Rightarrow> json \<Rightarrow> bool" where
  "kid_matches hkid key = py_eq (jwk_field key ''kid'') hkid"

text \<open>The five components of an entry, as handed to \<^verbatim>\<open>jwt.decode\<close>.\<close>

definition public_key :: "json \<Rightarrow> pydict" where
  "public_key key =
     [(''kty'', jwk_field key ''kty''), (''kid'', jwk_field key ''kid''),
      (''use'', jwk_field key ''use''), (''n'', jwk_field key ''n''),
      (''e'', jwk_field key ''e'')]"

section \<open>A concrete deployment\<close>

text \<open>
  The scenario of the specification: tenant \<^verbatim>\<open>tenant.example\<close>, audience \<^verbatim>\<open>my-api\<close>,
  one published key \<^verbatim>\<open>abc\<close>, and four tokens: a valid one, an expired one, one signed
  under the unpublished key \<^verbatim>\<open>zzz\<close>, and one that is not a token at all.
\<close>

definition cfg0 :: config where
  "cfg0 = \<lparr>AUTH0_DOMAIN = ''tenant.example'', AUTH0_AUDIENCE = ''my-api'',
           AUTH0_ALGORITHMS = [''RS256''],
           API_KEY_SECRET = ''dev-secret-key-change-in-production''\<rparr>"

definition cfg_empty_secret :: config where
  "cfg_empty_secret = \<lparr>AUTH0_DOMAIN = ''tenant.example'', AUTH0_AUDIENCE = ''my-api'',
           AUTH0_ALGORITHMS = [''RS256''], API_KEY_SECRET = []\<rparr>"

definition jwk_abc :: json where
  "jwk_abc = JObj [(''kid'', JStr ''abc''), (''kty'', JStr ''RSA''), (''use'', JStr ''sig''),
                   (''n'', JStr ''0vx7ag''), (''e'', JStr ''AQAB'')]"

text \<open>A second entry under the same identifier, for key sets with duplicates.\<close>

definition jwk_abc_second :: json where
  "jwk_abc_second = JObj [(''kid'', JStr ''abc''), (''kty'', JStr ''RSA''), (''use'', JStr ''sig''),
                   (''n'', JStr ''9zq3''), (''e'', JStr ''AQAB'')]"

definition jwk_without_use :: json where
  "jwk_without_use = JObj [(''kid'', JStr ''abc''), (''kty'', JStr ''RSA''),
                   (''n'', JStr ''0vx7ag''), (''e'', JStr ''AQAB'')]"

definition claims0 :: pydict where
  "claims0 = [(''sub'', JStr ''auth0|alice''), (''aud'', JStr ''my-api''),
              (''iss'', JStr ''https://tenant.example/''), (''exp'', JInt 1800000000)]"

definition requests_get0 :: "string \<Rightarrow> exn + response" where
  "requests_get0 url =
     (if url = ''https://tenant.example/.well-known/jwks.json''
      then Inr (Inr (JObj [(''keys'', JArr [jwk_abc])]))
      else Inl (OtherException ''ConnectionError''))"

definition get_unverified_header0 :: "string \<Rightarrow> exn + pydict" where
  "get_unverified_header0 token =
     (if token = ''valid'' \<or> token = ''expired''
      then Inr [(''alg'', JStr ''RS256''), (''kid'', JStr ''abc'')]
      else if token = ''unknown-kid''
      then Inr [(''alg'', JStr ''RS256''), (''kid'', JStr ''zzz'')]
      else Inl (JWTError ''Error decoding token headers.''))"

definition jwt_decode0 ::
  "string \<Rightarrow> pydict \<Rightarrow> string list \<Rightarrow> string \<Rightarrow> string \<Rightarrow> exn + pydict" where
  "jwt_decode0 token key algorithms audience issuer =
     (if key = public_key jwk_abc \<and> algorithms = [''RS256''] \<and> audience = ''my-api''
         \<and> issuer = ''https://tenant.example/''
      then (if token = ''valid'' then Inr claims0
            else if token = ''expired'' then Inl (ExpiredSignatureError ''Signature has expired.'')
            else Inl (JWTError ''Signature verification failed.''))
      else Inl (JWTError ''Signature verification failed.''))"

definition world0 :: world where
  "world0 = \<lparr>requests_get = requests_get0, get_unverified_header = get_unverified_header0,
             jwt_decode = jwt_decode0\<rparr>"

text \<open>The same deployment when the published key lacks its \<^verbatim>\<open>use\<close> member.\<close>

definition requests_get_without_use :: "string \<Rightarrow> exn + response" where
  "requests_get_without_use url = Inr (Inr (JObj [(''keys'', JArr [jwk_without_use])]))"

definition world_without_use :: world where
  "world_without_use = \<lparr>requests_get = requests_get_without_use,
             get_unverified_header = get_unverified_header0, jwt_decode = jwt_decode0\<rparr>"

definition bearer :: "string \<Rightarrow> http_authorization_credentials" where
  "bearer token = \<lparr>scheme = ''Bearer'', credentials = token\<rparr>"

definition alert0 :: "string alert_create" where
  "alert0 = \<lparr>user_email = None, violation_type = ''pii_detected'', details = ''{}''\<rparr>"

definition alert1 :: "string alert_create" where
  "alert1 = \<lparr>user_email = Some ''test@example.com'', violation_type = ''pii_detected'',
             details = ''{}''\<rparr>"

definition str0 :: "string \<Rightarrow> string" where
  "str0 d = d"

section \<open>Properties of the gate\<close>

lemmas deployment_defs = cfg0_def cfg_empty_secret_def jwk_abc_def jwk_abc_second_def
  jwk_without_use_def claims0_def requests_get0_def get_unverified_header0_def jwt_decode0_def
  world0_def requests_get_without_use_def world_without_use_def bearer_def public_key_def
lemmas gate_defs = verify_api_key_def verify_jwt_def verify_jwt_body_def decode_with_def
  build_rsa_key_def dict_get_def api_key_path_def unauthorized_def

lemma verify_jwt_rejection:
  "verify_jwt w cfg token = Inl e \<Longrightarrow>
     e = unauthorized ''Authentication failed''
     \<or> (\<exists>m. e = unauthorized (''Could not validate credentials: '' @ m))"
  by (auto simp: verify_jwt_def split: sum.splits if_splits)

lemma verify_api_key_bearer:
  "verify_api_key w cfg api_key_header (Some tok) = verify_jwt w cfg (credentials tok)"
proof (cases "verify_jwt w cfg (credentials tok)")
  case (Inl e)
  from verify_jwt_rejection [OF Inl] obtain d where "e = unauthorized d" by blast
  with Inl show ?thesis by (simp add: verify_api_key_def unauthorized_def)
next
  case (Inr p)
  then show ?thesis by (simp add: verify_api_key_def)
qed

lemma decode_with_ignores_secret:
  "decode_with w (cfg\<lparr>API_KEY_SECRET := s\<rparr>) token rsa_key = decode_with w cfg token rsa_key"
  by (simp add: decode_with_def)

lemma verify_jwt_ignores_secret:
  "verify_jwt w (cfg\<lparr>API_KEY_SECRET := s\<rparr>) token = verify_jwt w cfg token"
  by (simp add: verify_jwt_def verify_jwt_body_def decode_with_ignores_secret
        cong: sum.case_cong if_cong)

lemma verify_api_key_without_bearer:
  "verify_api_key w cfg api_key_header None = api_key_path cfg api_key_header"
  by (simp add: verify_api_key_def)

lemma build_rsa_key_well_formed:
  "well_formed_jwk key \<Longrightarrow> build_rsa_key key = Inr (public_key key)"
  by (cases key) (auto simp: build_rsa_key_def public_key_def dict_get_def)

lemma subscript_kid_well_formed:
  "well_formed_jwk key \<Longrightarrow> subscript key ''kid'' = Inr (jwk_field key ''kid'')"
  by (cases key) (auto simp: dict_get_def)

lemma find_rsa_key_well_formed:
  assumes "\<forall>key \<in> set keys. well_formed_jwk key" and "map_of hdr ''kid'' = Some hkid"
  shows "find_rsa_key keys hdr =
     (case find (kid_matches hkid) keys of None \<Rightarrow> Inr [] | Some key \<Rightarrow> Inr (public_key key))"
  using assms
  by (induction keys)
     (simp_all add: subscript_kid_well_formed build_rsa_key_well_formed dict_get_def
        kid_matches_def)

lemma public_key_not_empty: "public_key key \<noteq> []"
  by (simp add: public_key_def)

lemma verify_jwt_body_well_formed:
  assumes "requests_get w (''https://'' @ AUTH0_DOMAIN cfg @ ''/.well-known/jwks.json'')
             = Inr (Inr (JObj jwks))"
    and "map_of jwks ''keys'' = Some (JArr keys)"
    and "\<forall>key \<in> set keys. well_formed_jwk key"
    and "get_unverified_header w token = Inr hdr"
    and "map_of hdr ''kid'' = Some hkid"
  shows "verify_jwt_body w cfg token =
     (case find (kid_matches hkid) keys of
        None \<Rightarrow> Inl (unauthorized ''Unable to find appropriate key'')
      | Some key \<Rightarrow> decode_with w cfg token (public_key key))"
  using assms(1,2,4) find_rsa_key_well_formed [OF assms(3,5)]
  by (simp add: verify_jwt_body_def dict_get_def public_key_not_empty split: option.splits)

lemma not_JOSE_unauthorized: "\<not> is_JOSEError (unauthorized d)"
  by (simp add: unauthorized_def)

lemma verify_jwt_body_unreachable:
  "requests_get w (''https://'' @ AUTH0_DOMAIN cfg @ ''/.well-known/jwks.json'') = Inl e \<Longrightarrow>
     verify_jwt_body w cfg token = Inl e"
  by (simp add: verify_jwt_body_def)

lemma verify_jwt_body_unparsable:
  "requests_get w (''https://'' @ AUTH0_DOMAIN cfg @ ''/.well-known/jwks.json'') = Inr (Inl e) \<Longrightarrow>
     verify_jwt_body w cfg token = Inl e"
  by (simp add: verify_jwt_body_def)

lemma verify_jwt_body_malformed_token:
  "requests_get w (''https://'' @ AUTH0_DOMAIN cfg @ ''/.well-known/jwks.json'') = Inr (Inr jwks) \<Longrightarrow>
   get_unverified_header w token = Inl e \<Longrightarrow>
     verify_jwt_body w cfg token = Inl e"
  by (simp add: verify_jwt_body_def)

lemma verify_jwt_body_incomplete_key:
  assumes "requests_get w (''https://'' @ AUTH0_DOMAIN cfg @ ''/.well-known/jwks.json'')
             = Inr (Inr (JObj jwks))"
    and "map_of jwks ''keys'' = Some (JArr (key # keys))"
    and "get_unverified_header w token = Inr hdr"
    and "map_of hdr ''kid'' = Some hkid"
    and "subscript key ''kid'' = Inr kid" and "py_eq kid hkid"
    and "build_rsa_key key = Inl e"
  shows "verify_jwt_body w cfg token = Inl e"
  using assms by (simp add: verify_jwt_body_def dict_get_def)

lemma find_rsa_key_earliest:
  assumes "\<forall>k \<in> set (pre @ key # post). well_formed_jwk k"
    and "map_of hdr ''kid'' = Some hkid"
    and "\<forall>k \<in> set pre. \<not> kid_matches hkid k" and "kid_matches hkid key"
  shows "find_rsa_key (pre @ key # post) hdr = Inr (public_key key)"
proof -
  have "find (kid_matches hkid) (pre @ key # post) = Some key"
    using assms(3,4) by (induction pre) simp_all
  with find_rsa_key_well_formed [OF assms(1,2)] show ?thesis by simp
qed

lemma expired_token_rejection:
  assumes "requests_get w (''https://'' @ AUTH0_DOMAIN cfg @ ''/.well-known/jwks.json'')
             = Inr (Inr (JObj jwks))"
    and "map_of jwks ''keys'' = Some (JArr keys)"
    and "\<forall>key \<in> set keys. well_formed_jwk key"
    and "get_unverified_header w (credentials tok) = Inr hdr"
    and "map_of hdr ''kid'' = Some hkid"
    and "find (kid_matches hkid) keys = Some key"
    and "jwt_decode w (credentials tok) (public_key key) (AUTH0_ALGORITHMS cfg)
           (AUTH0_AUDIENCE cfg) (''https://'' @ AUTH0_DOMAIN cfg @ ''/'')
           = Inl (ExpiredSignatureError m)"
  shows "verify_jwt_body w cfg (credentials tok) = Inl (unauthorized ''Token is expired'')"
    and "verify_api_key w cfg api_key_header (Some tok)
           = Inl (unauthorized ''Authentication failed'')"
proof -
  have "verify_jwt_body w cfg (credentials tok)
          = decode_with w cfg (credentials tok) (public_key key)"
    using verify_jwt_body_well_formed [OF assms(1-5)] assms(6) by simp
  also have "\<dots> = Inl (unauthorized ''Token is expired'')"
    using assms(7) by (simp add: decode_with_def)
  finally show b: "verify_jwt_body w cfg (credentials tok) = Inl (unauthorized ''Token is expired'')" .
  show "verify_api_key w cfg api_key_header (Some tok)
           = Inl (unauthorized ''Authentication failed'')"
    by (simp add: verify_api_key_bearer verify_jwt_def b not_JOSE_unauthorized)
qed

lemma unknown_kid_rejection:
  assumes "requests_get w (''https://'' @ AUTH0_DOMAIN cfg @ ''/.well-known/jwks.json'')
             = Inr (Inr (JObj jwks))"
    and "map_of jwks ''keys'' = Some (JArr keys)"
    and "\<forall>key \<in> set keys. well_formed_jwk key"
    and "get_unverified_header w (credentials tok) = Inr hdr"
    and "map_of hdr ''kid'' = Some hkid"
    and "\<forall>key \<in> set keys. \<not> kid_matches hkid key"
  shows "verify_jwt_body w cfg (credentials tok)
           = Inl (unauthorized ''Unable to find appropriate key'')"
    and "verify_api_key w cfg api_key_header (Some tok)
           = Inl (unauthorized ''Authentication failed'')"
proof -
  have "find (kid_matches hkid) keys = None"
    using assms(6) by (simp add: find_None_iff)
  with verify_jwt_body_well_formed [OF assms(1-5)]
  show b: "verify_jwt_body w cfg (credentials tok)
           = Inl (unauthorized ''Unable to find appropriate key'')" by simp
  show "verify_api_key w cfg api_key_header (Some tok)
           = Inl (unauthorized ''Authentication failed'')"
    by (simp add: verify_api_key_bearer verify_jwt_def b not_JOSE_unauthorized)
qed

lemma duplicate_kid_uses_earliest:
  "find_rsa_key [jwk_abc, jwk_abc_second] [(''alg'', JStr ''RS256''), (''kid'', JStr ''abc'')]
     = Inr (public_key jwk_abc)"
  by (simp add: build_rsa_key_def dict_get_def deployment_defs)

text \<open>
  C1. A request that carries a bearer token is decided by token verification alone: the
  gate returns what \<open>verify_jwt\<close> returns, whatever the \<^verbatim>\<open>X-API-Key\<close> header and the
  configured secret are, and when token verification fails the result is a 401 rejection.
\<close>

theorem bearer_token_commits_to_token_path:
  "verify_api_key w cfg api_key_header (Some tok) = verify_jwt w cfg (credentials tok)
   \<and> verify_api_key w (cfg\<lparr>API_KEY_SECRET := s\<rparr>) api_key_header' (Some tok)
       = verify_api_key w cfg api_key_header (Some tok)
   \<and> (\<forall>e. verify_jwt w cfg (credentials tok) = Inl e \<longrightarrow>
        (\<exists>d. verify_api_key w cfg api_key_header (Some tok) = Inl (unauthorized d)))"
proof (intro conjI allI impI)
  show "verify_api_key w cfg api_key_header (Some tok) = verify_jwt w cfg (credentials tok)"
    by (rule verify_api_key_bearer)
  show "verify_api_key w (cfg\<lparr>API_KEY_SECRET := s\<rparr>) api_key_header' (Some tok)
       = verify_api_key w cfg api_key_header (Some tok)"
    by (simp add: verify_api_key_bearer verify_jwt_ignores_secret)
  fix e assume "verify_jwt w cfg (credentials tok) = Inl e"
  then show "\<exists>d. verify_api_key w cfg api_key_header (Some tok) = Inl (unauthorized d)"
    using verify_jwt_rejection [of w cfg "credentials tok" e]
    by (auto simp: verify_api_key_bearer)
qed

theorem bearer_token_commits_to_token_path_witness:
  "verify_jwt world0 cfg0 (credentials (bearer ''garbage''))
     = Inl (unauthorized ''Could not validate credentials: Error decoding token headers.'')
   \<and> api_key_path cfg0 (Some ''dev-secret-key-change-in-production'')
     = Inr [(''sub'', JStr ''internal_extension''), (''scope'', JStr ''admin'')]
   \<and> (\<exists>d. verify_api_key world0 cfg0 (Some ''dev-secret-key-change-in-production'')
          (Some (bearer ''garbage'')) = Inl (unauthorized d))"
proof -
  have a: "verify_jwt world0 cfg0 (credentials (bearer ''garbage''))
     = Inl (unauthorized ''Could not validate credentials: Error decoding token headers.'')"
    by (simp add: gate_defs deployment_defs)
  have b: "api_key_path cfg0 (Some ''dev-secret-key-change-in-production'')
     = Inr [(''sub'', JStr ''internal_extension''), (''scope'', JStr ''admin'')]"
    by (simp add: api_key_path_def cfg0_def)
  from a b bearer_token_commits_to_token_path
    [of world0 cfg0 "Some ''dev-secret-key-change-in-production''" "bearer ''garbage''"]
  show ?thesis by blast
qed

text \<open>
  C2. A token that is valid for the key the gate selects is accepted with its own claims:
  when the key set is fetched and each entry has its five members, the token's header
  carries a \<^verbatim>\<open>kid\<close>, and \<^verbatim>\<open>jwt.decode\<close> accepts the token under the first entry with that
  \<^verbatim>\<open>kid\<close>, the configured algorithms, the configured audience and the issuer
  \<^verbatim>\<open>https://{domain}/\<close>, the gate returns the claims \<^verbatim>\<open>jwt.decode\<close> returned.
\<close>

theorem valid_token_yields_its_claims:
  assumes "requests_get w (''https://'' @ AUTH0_DOMAIN cfg @ ''/.well-known/jwks.json'')
             = Inr (Inr (JObj jwks))"
    and "map_of jwks ''keys'' = Some (JArr keys)"
    and "\<forall>key \<in> set keys. well_formed_jwk key"
    and "get_unverified_header w (credentials tok) = Inr hdr"
    and "map_of hdr ''kid'' = Some hkid"
    and "find (kid_matches hkid) keys = Some key"
    and "jwt_decode w (credentials tok) (public_key key) (AUTH0_ALGORITHMS cfg)
           (AUTH0_AUDIENCE cfg) (''https://'' @ AUTH0_DOMAIN cfg @ ''/'') = Inr claims"
  shows "verify_api_key w cfg api_key_header (Some tok) = Inr claims"
proof -
  have "verify_jwt_body w cfg (credentials tok) = decode_with w cfg (credentials tok) (public_key key)"
    using verify_jwt_body_well_formed [OF assms(1-5)] assms(6) by simp
  also have "\<dots> = Inr claims"
    using assms(7) by (simp add: decode_with_def)
  finally show ?thesis
    by (simp add: verify_api_key_bearer verify_jwt_def)
qed

theorem valid_token_yields_its_claims_witness:
  "verify_api_key world0 cfg0 None (Some (bearer ''valid'')) = Inr claims0"
  by (rule valid_token_yields_its_claims
        [where jwks = "[(''keys'', JArr [jwk_abc])]" and keys = "[jwk_abc]"
           and hdr = "[(''alg'', JStr ''RS256''), (''kid'', JStr ''abc'')]"
           and hkid = "JStr ''abc''" and key = jwk_abc])
     (simp_all add: deployment_defs kid_matches_def)

text \<open>
  C3. An expired token is meant to be rejected with the detail \<^verbatim>\<open>Token is expired\<close>: the
  handler of \<^verbatim>\<open>jwt.ExpiredSignatureError\<close> raises it. The handler sits inside the outer
  \<^verbatim>\<open>try\<close>, whose \<^verbatim>\<open>except Exception\<close> catches that \<^verbatim>\<open>HTTPException\<close> and raises
  \<^verbatim>\<open>Authentication failed\<close> in its place. Evaluated in the concrete deployment.
\<close>

theorem expired_token_detail_is_masked:
  "jwt_decode world0 ''expired'' (public_key jwk_abc) (AUTH0_ALGORITHMS cfg0)
      (AUTH0_AUDIENCE cfg0) (''https://'' @ AUTH0_DOMAIN cfg0 @ ''/'')
     = Inl (ExpiredSignatureError ''Signature has expired.'')
   \<and> verify_jwt_body world0 cfg0 ''expired'' = Inl (unauthorized ''Token is expired'')
   \<and> verify_api_key world0 cfg0 None (Some (bearer ''expired''))
     = Inl (unauthorized ''Authentication failed'')"
  by (simp add: gate_defs deployment_defs)

text \<open>
  C4, as amended. Every rejection of the gate is a 401 with the header
  \<^verbatim>\<open>WWW-Authenticate: Bearer\<close>. Without a bearer token the detail is always
  \<^verbatim>\<open>Missing or invalid authentication credentials\<close>, for a missing and for a wrong API
  key alike; with a bearer token the detail is never that text.
\<close>

theorem rejections_are_401_challenges:
  assumes "verify_api_key w cfg api_key_header token = Inl e"
  shows "\<exists>d. e = HTTPException \<lparr>status_code = 401, detail = d,
                    headers = [(''WWW-Authenticate'', ''Bearer'')]\<rparr>
           \<and> (token = None \<longrightarrow> d = ''Missing or invalid authentication credentials'')
           \<and> (token \<noteq> None \<longrightarrow> d \<noteq> ''Missing or invalid authentication credentials'')"
proof (cases token)
  case None
  with assms show ?thesis
    by (auto simp: verify_api_key_def api_key_path_def unauthorized_def
          split: option.splits if_splits)
next
  case (Some tok)
  with assms have "verify_jwt w cfg (credentials tok) = Inl e"
    by (simp add: verify_api_key_bearer)
  from verify_jwt_rejection [OF this] Some show ?thesis
    by (auto simp: unauthorized_def)
qed

theorem rejections_are_401_challenges_witness:
  "verify_api_key world0 cfg0 (Some ''wrong-key'') None
     = Inl (unauthorized ''Missing or invalid authentication credentials'')
   \<and> (\<exists>d. unauthorized ''Missing or invalid authentication credentials''
            = HTTPException \<lparr>status_code = 401, detail = d,
                    headers = [(''WWW-Authenticate'', ''Bearer'')]\<rparr>
          \<and> d = ''Missing or invalid authentication credentials'')"
proof -
  have a: "verify_api_key world0 cfg0 (Some ''wrong-key'') None
          = Inl (unauthorized ''Missing or invalid authentication credentials'')"
    by (simp add: verify_api_key_def api_key_path_def cfg0_def)
  from a rejections_are_401_challenges [OF a] show ?thesis by simp
qed

text \<open>
  C4 as stated fails: the rejection for no credential and the rejection for a wrong API
  key carry the same detail.
\<close>

theorem shared_detail_counterexample:
  "verify_api_key world0 cfg0 None None
     = Inl (unauthorized ''Missing or invalid authentication credentials'')
   \<and> verify_api_key world0 cfg0 (Some ''wrong-key'') None
     = Inl (unauthorized ''Missing or invalid authentication credentials'')"
  by (simp add: verify_api_key_def api_key_path_def cfg0_def)

text \<open>
  C5, as amended. An \<^verbatim>\<open>X-API-Key\<close> header that differs from the configured secret, with
  no bearer token, is rejected with the detail
  \<^verbatim>\<open>Missing or invalid authentication credentials\<close>: the very rejection of a request
  without any credential.
\<close>

theorem wrong_api_key_rejected:
  assumes "k \<noteq> API_KEY_SECRET cfg"
  shows "verify_api_key w cfg (Some k) None
           = Inl (unauthorized ''Missing or invalid authentication credentials'')
         \<and> verify_api_key w cfg (Some k) None = verify_api_key w cfg None None"
  using assms by (simp add: verify_api_key_def api_key_path_def)

theorem wrong_api_key_rejected_witness:
  "verify_api_key world0 cfg0 (Some ''guess'') None
           = Inl (unauthorized ''Missing or invalid authentication credentials'')
         \<and> verify_api_key world0 cfg0 (Some ''guess'') None = verify_api_key world0 cfg0 None None"
  by (rule wrong_api_key_rejected) (simp add: cfg0_def)

text \<open>
  C5 as stated fails: the rejection of a wrong API key is not distinct from the one of a
  request without credentials.
\<close>

theorem wrong_api_key_counterexample:
  "API_KEY_SECRET cfg0 \<noteq> ''wrong-key''
   \<and> verify_api_key world0 cfg0 (Some ''wrong-key'') None = verify_api_key world0 cfg0 None None"
  by (simp add: verify_api_key_def api_key_path_def cfg0_def)

text \<open>
  C6, as amended. A non-empty \<^verbatim>\<open>X-API-Key\<close> header equal to the configured secret, with
  no bearer token, is authenticated as the synthetic principal
  \<^verbatim>\<open>{"sub": "internal_extension", "scope": "admin"}\<close>.
\<close>

theorem correct_api_key_accepted:
  assumes "k \<noteq> []" and "k = API_KEY_SECRET cfg"
  shows "verify_api_key w cfg (Some k) None
           = Inr [(''sub'', JStr ''internal_extension''), (''scope'', JStr ''admin'')]"
  using assms by (simp add: verify_api_key_def api_key_path_def)

theorem correct_api_key_accepted_witness:
  "verify_api_key world0 cfg0 (Some ''dev-secret-key-change-in-production'') None
           = Inr [(''sub'', JStr ''internal_extension''), (''scope'', JStr ''admin'')]"
  by (rule correct_api_key_accepted) (simp_all add: cfg0_def)

text \<open>
  C6 as stated fails when the configured secret is the empty string: the empty header
  equals it and is rejected.
\<close>

theorem empty_secret_counterexample:
  "API_KEY_SECRET cfg_empty_secret = []
   \<and> verify_api_key world0 cfg_empty_secret (Some []) None
       = Inl (unauthorized ''Missing or invalid authentication credentials'')"
  by (simp add: verify_api_key_def api_key_path_def cfg_empty_secret_def)

text \<open>
  C7. A token whose \<^verbatim>\<open>kid\<close> matches no published key is meant to be rejected with the
  detail \<^verbatim>\<open>Unable to find appropriate key\<close>, raised after the loop. The \<^verbatim>\<open>raise\<close> sits
  inside the outer \<^verbatim>\<open>try\<close>, whose \<^verbatim>\<open>except Exception\<close> catches it and raises
  \<^verbatim>\<open>Authentication failed\<close> in its place. Evaluated in the concrete deployment. That the
  earliest entry with the token's \<^verbatim>\<open>kid\<close> is the one used is \<open>find_rsa_key_earliest\<close>.
\<close>

theorem unknown_kid_detail_is_masked:
  "get_unverified_header world0 ''unknown-kid''
     = Inr [(''alg'', JStr ''RS256''), (''kid'', JStr ''zzz'')]
   \<and> find (kid_matches (JStr ''zzz'')) [jwk_abc] = None
   \<and> verify_jwt_body world0 cfg0 ''unknown-kid''
     = Inl (unauthorized ''Unable to find appropriate key'')
   \<and> verify_api_key world0 cfg0 None (Some (bearer ''unknown-kid''))
     = Inl (unauthorized ''Authentication failed'')"
  by (simp add: gate_defs deployment_defs kid_matches_def)

text \<open>
  C8. Whatever exception leaves the body of \<^verbatim>\<open>verify_jwt\<close> (an unreachable or
  unparsable key-set endpoint, key material without an expected member, anything else),
  the gate raises a 401 \<^verbatim>\<open>HTTPException\<close>: with the detail
  \<^verbatim>\<open>Could not validate credentials: ...\<close> for a \<^verbatim>\<open>JOSEError\<close>, and
  \<^verbatim>\<open>Authentication failed\<close> for every other exception. No other exception reaches the
  caller.
\<close>

theorem internal_errors_become_rejections:
  assumes "verify_jwt_body w cfg (credentials tok) = Inl e"
  shows "verify_api_key w cfg api_key_header (Some tok)
           = Inl (unauthorized (if is_JOSEError e
                                then ''Could not validate credentials: '' @ str_exn e
                                else ''Authentication failed''))"
  using assms by (simp add: verify_api_key_bearer verify_jwt_def)

theorem internal_errors_become_rejections_witness:
  "verify_jwt_body world_without_use cfg0 (credentials (bearer ''valid'')) = Inl (KeyError ''use'')
   \<and> verify_api_key world_without_use cfg0 None (Some (bearer ''valid''))
       = Inl (unauthorized ''Authentication failed'')"
proof -
  have a: "verify_jwt_body world_without_use cfg0 (credentials (bearer ''valid''))
             = Inl (KeyError ''use'')"
    by (simp add: gate_defs deployment_defs)
  from a internal_errors_become_rejections [OF a, of None] show ?thesis by simp
qed

text \<open>
  C9. An empty \<^verbatim>\<open>X-API-Key\<close> header without a bearer token is rejected like a request
  without credentials, also when the configured secret is the empty string.
\<close>

theorem empty_api_key_is_no_credential:
  "verify_api_key w cfg (Some []) None
     = Inl (unauthorized ''Missing or invalid authentication credentials'')
   \<and> verify_api_key w cfg (Some []) None = verify_api_key w cfg None None
   \<and> verify_api_key w (cfg\<lparr>API_KEY_SECRET := []\<rparr>) (Some []) None
     = Inl (unauthorized ''Missing or invalid authentication credentials'')"
  by (simp add: verify_api_key_def api_key_path_def)

theorem empty_api_key_is_no_credential_witness:
  "verify_api_key world0 cfg_empty_secret (Some []) None
     = verify_api_key world0 cfg_empty_secret None None"
  by (rule conjunct1 [OF conjunct2 [OF empty_api_key_is_no_credential]])

section \<open>Properties of the alert handler\<close>

text \<open>
  C10. For an authenticated request the handler replaces an absent or empty
  \<^verbatim>\<open>user_email\<close> by \<^verbatim>\<open>joshini.mn@gmail.com\<close>, leaves a non-empty one unchanged, and
  returns \<^verbatim>\<open>{"status": "success", "message": "Alert logged"}\<close>.
\<close>

theorem create_alert_defaults_email:
  assumes "verify_api_key w cfg api_key_header token = Inr p"
  shows "\<exists>alert' out.
           post_alerts w cfg str_details api_key_header token alert
             = Inr (alert', out, [(''status'', ''success''), (''message'', ''Alert logged'')])
         \<and> (user_email alert = None \<or> user_email alert = Some []
              \<longrightarrow> alert' = alert\<lparr>user_email := Some ''joshini.mn@gmail.com''\<rparr>)
         \<and> (\<forall>a. user_email alert = Some a \<and> a \<noteq> [] \<longrightarrow> alert' = alert)"
  using assms by (auto simp: post_alerts_def create_alert_def Let_def)

theorem create_alert_defaults_email_witness:
  "(\<exists>out. post_alerts world0 cfg0 str0 (Some ''dev-secret-key-change-in-production'') None alert0
      = Inr (alert0\<lparr>user_email := Some ''joshini.mn@gmail.com''\<rparr>, out,
             [(''status'', ''success''), (''message'', ''Alert logged'')]))
   \<and> (\<exists>out. post_alerts world0 cfg0 str0 (Some ''dev-secret-key-change-in-production'') None alert1
      = Inr (alert1, out, [(''status'', ''success''), (''message'', ''Alert logged'')]))"
proof -
  have a: "verify_api_key world0 cfg0 (Some ''dev-secret-key-change-in-production'') None
        = Inr [(''sub'', JStr ''internal_extension''), (''scope'', JStr ''admin'')]"
    by (simp add: verify_api_key_def api_key_path_def cfg0_def)
  have b: "user_email alert0 = None" by (simp add: alert0_def)
  have c: "user_email alert1 = Some ''test@example.com''" by (simp add: alert1_def)
  from create_alert_defaults_email [OF a, of str0 alert0] b
  have "\<exists>out. post_alerts world0 cfg0 str0 (Some ''dev-secret-key-change-in-production'') None alert0
      = Inr (alert0\<lparr>user_email := Some ''joshini.mn@gmail.com''\<rparr>, out,
             [(''status'', ''success''), (''message'', ''Alert logged'')])" by auto
  moreover from create_alert_defaults_email [OF a, of str0 alert1] c
  have "\<exists>out. post_alerts world0 cfg0 str0 (Some ''dev-secret-key-change-in-production'') None alert1
      = Inr (alert1, out, [(''status'', ''success''), (''message'', ''Alert logged'')])" by auto
  ultimately show ?thesis by simp
qed

end
